theory Spec2Isabelle
  imports Main "HOL-Library.Sublist"
begin

section \<open>Python values used by app.py\<close>

text \<open>
  A Python float is an IEEE 754 double: \<open>Finite s m e\<close> is the number
  \<open>(-1)^s * m * 2^e\<close> (so \<open>Finite True 0 0\<close> is \<open>-0.0\<close>), the other two
  constructors are the infinities and not-a-number, which Python's json module reads
  from \<open>Infinity\<close>, \<open>-Infinity\<close> and \<open>NaN\<close>.
\<close>

datatype pyfloat = Finite bool nat int | Infinity bool | NaN

text \<open>
  What \<open>response.json()\<close> and \<open>json.load\<close> return. A dict is an association list in
  the order of the document; Python's \<open>None\<close> is \<open>JNull\<close>.
\<close>

datatype json =
    JNull
  | JBool bool
  | JInt int
  | JFloat pyfloat
  | JStr string
  | JArr "json list"
  | JObj "(string \<times> json) list"

text \<open>The exceptions that the modelled code can raise.\<close>

datatype error =
    KeyError string
  | TypeError
  | ValueError
  | OverflowError
  | AttributeError
  | JSONDecodeError
  | UnicodeDecodeError
  | RecursionError
  | OSError

text \<open>
  An HTTP response as the code reads it: the status code, and what
  \<open>response.json()\<close> makes of the body (\<open>None\<close> when the body is not a JSON
  document, in which case \<open>response.json()\<close> raises).
\<close>

record response =
  status_code :: int
  json_body :: "json option"

definition response_json :: "response \<Rightarrow> error + json" where
  "response_json r = (case json_body r of None \<Rightarrow> Inl JSONDecodeError | Some j \<Rightarrow> Inr j)"

text \<open>The streamlit banners \<open>st.warning\<close>, \<open>st.error\<close>, \<open>st.info\<close>, \<open>st.success\<close>.\<close>

datatype notice = Warning string | Error string | Info string | Success string

text \<open>
  The lines \<open>send_daily_updates\<close> prints, one constructor per \<open>print\<close> statement:
  \<^item> \<open>NoSubscribers\<close>: "No subscribers to send emails to."
  \<^item> \<open>FetchFailed\<close>: "Failed to fetch cryptocurrency data."
  \<^item> \<open>SentOk email\<close>: "Email sent successfully to {email}"
  \<^item> \<open>SendFailed email response\<close>: "Failed to send email to {email}: {response}"
\<close>

datatype printed = NoSubscribers | FetchFailed | SentOk json | SendFailed json json

text \<open>
  The file subscribers.json: absent, or present with what reading and decoding its
  contents comes to. That is the decoded value, or the exception raised on the way:
  JSONDecodeError for text that is not a JSON document, UnicodeDecodeError for bytes
  that are not text in the encoding of \<open>open\<close>, RecursionError for a document
  nested deeper than the interpreter allows, ValueError for an integer literal beyond
  its digit limit.
\<close>

datatype stored_file = Absent | Contents "error + json"

text \<open>
  The outside world. The two HTTP services are scripts: \<open>price_api E n\<close> is the
  response to the \<open>n\<close>-th GET (counting from 0) and \<open>email_api E n\<close> the response to
  the \<open>n\<close>-th POST. \<open>sleep_accepted E n secs\<close> tells whether the operating system
  takes the \<open>n\<close>-th sleep of the run when it lasts \<open>secs\<close> seconds: Linux refuses a
  deadline beyond the range of its monotonic clock. The model covers the runs in
  which the HTTP library returns a response and the file system grants access.
\<close>

record env =
  price_api :: "nat \<Rightarrow> response"
  email_api :: "nat \<Rightarrow> response"
  sleep_accepted :: "nat \<Rightarrow> int \<Rightarrow> bool"

text \<open>
  Everything the program changes or emits: the number of GETs issued, the payloads
  POSTed (recipient, subject, html), the durations slept in \<open>time.sleep\<close>, the
  banners shown, the lines printed, the subscriber file, how often it was read and
  the values written to it.
\<close>

record world =
  gets :: nat
  posts :: "(json \<times> string \<times> string) list"
  sleeps :: "int list"
  notices :: "notice list"
  stdout :: "printed list"
  subscribers_json :: stored_file
  loads :: nat
  saves :: "json list"

section \<open>Formatting numbers\<close>

definition digit_char :: "nat \<Rightarrow> char" where
  "digit_char n = ''0123456789'' ! n"

fun digits :: "nat \<Rightarrow> string" where
  "digits n = (if n < 10 then [digit_char n] else digits (n div 10) @ [digit_char (n mod 10)])"

declare digits.simps [simp del]

text \<open>The decimal representation of an int.\<close>

definition str_int :: "int \<Rightarrow> string" where
  "str_int i = (if i < 0 then CHR ''-'' # digits (nat (- i)) else digits (nat i))"

text \<open>
  \<open>str(i)\<close>, as an f-string field \<open>{i}\<close> computes it: the interpreter refuses to
  convert an int of more than 4300 digits and raises ValueError.
\<close>

definition str_limit :: int where
  "str_limit = 10 ^ 4300"

definition py_str :: "int \<Rightarrow> error + string" where
  "py_str i = (if str_limit \<le> \<bar>i\<bar> then Inl ValueError else Inr (str_int i))"

definition zero_pad :: "nat \<Rightarrow> string \<Rightarrow> string" where
  "zero_pad k s = replicate (k - length s) (CHR ''0'') @ s"

section \<open>Price Fetcher: fetch_crypto_data\<close>

text \<open>
  \<open>time.sleep(secs)\<close> for an int: the duration becomes a signed 64-bit count of
  nanoseconds, which raises OverflowError beyond \<open>sleep_max\<close> seconds either way; a
  negative duration raises ValueError; one that the operating system refuses raises
  OSError; any other is slept.
\<close>

definition sleep_max :: int where
  "sleep_max = (2 ^ 63 - 1) div 10 ^ 9"

definition time_sleep :: "env \<Rightarrow> int \<Rightarrow> world \<Rightarrow> error + world" where
  "time_sleep E secs w =
     (if secs < - sleep_max \<or> sleep_max < secs then Inl OverflowError
      else if secs < 0 then Inl ValueError
      else if sleep_accepted E (length (sleeps w)) secs then Inr (w\<lparr>sleeps := sleeps w @ [secs]\<rparr>)
      else Inl OSError)"

text \<open>
  The \<open>for attempt in range(max_retries)\<close> loop, with \<open>attempt\<close> and the current
  \<open>retry_delay\<close> as arguments. The text of a banner is built before the banner is
  shown, and the warning is shown before the sleep. After a 429 on the last attempt
  the loop body ends, the range is exhausted and the function returns \<open>None\<close>.
\<close>

definition retry_warning :: "int \<Rightarrow> notice" where
  "retry_warning retry_delay =
     Warning (''Rate limit hit. Retrying in '' @ str_int retry_delay @ '' seconds...'')"

function fetch_loop :: "env \<Rightarrow> int \<Rightarrow> int \<Rightarrow> int \<Rightarrow> world \<Rightarrow> (error + json) \<times> world" where
  "fetch_loop E max_retries attempt retry_delay w =
     (if attempt < max_retries then
        (let response = price_api E (gets w);
             w1 = w\<lparr>gets := gets w + 1\<rparr>
         in if status_code response = 200 then (response_json response, w1)
            else if status_code response = 429 then
              (if attempt < max_retries - 1 then
                 (case py_str retry_delay of
                    Inl e \<Rightarrow> (Inl e, w1)
                  | Inr secs \<Rightarrow>
                      (let w2 = w1\<lparr>notices := notices w1 @
                             [Warning (''Rate limit hit. Retrying in '' @ secs @ '' seconds...'')]\<rparr>
                       in case time_sleep E retry_delay w2 of
                            Inl e \<Rightarrow> (Inl e, w2)
                          | Inr w3 \<Rightarrow>
                              fetch_loop E max_retries (attempt + 1) (retry_delay * 2) w3))
               else fetch_loop E max_retries (attempt + 1) retry_delay
                      (w1\<lparr>notices := notices w1 @
                         [Error ''Rate limit exceeded. Please try again later.'']\<rparr>))
            else
              (case py_str (status_code response) of
                 Inl e \<Rightarrow> (Inl e, w1)
               | Inr code \<Rightarrow>
                   (Inr JNull,
                    w1\<lparr>notices := notices w1 @ [Error (''Error fetching data: '' @ code)]\<rparr>)))
      else (Inr JNull, w))"
  by pat_completeness auto
termination
  by (relation "measure (\<lambda>(E, max_retries, attempt, retry_delay, w). nat (max_retries - attempt))") auto

declare fetch_loop.simps [simp del]

definition fetch_crypto_data :: "env \<Rightarrow> int \<Rightarrow> int \<Rightarrow> world \<Rightarrow> (error + json) \<times> world" where
  "fetch_crypto_data E max_retries retry_delay w = fetch_loop E max_retries 0 retry_delay w"

section \<open>Python's operations on the decoded JSON values\<close>

text \<open>Early exit on an exception.\<close>

definition bind_err :: "'e + 'a \<Rightarrow> ('a \<Rightarrow> 'e + 'b) \<Rightarrow> 'e + 'b" where
  "bind_err r f = (case r of Inl e \<Rightarrow> Inl e | Inr x \<Rightarrow> f x)"

text \<open>\<open>bool(v)\<close>, which \<open>if not v\<close> tests.\<close>

definition truthy :: "json \<Rightarrow> bool" where
  "truthy v =
     (case v of
        JNull \<Rightarrow> False
      | JBool b \<Rightarrow> b
      | JInt i \<Rightarrow> i \<noteq> 0
      | JFloat x \<Rightarrow> (case x of Finite s m e \<Rightarrow> m \<noteq> 0 | Infinity s \<Rightarrow> True | NaN \<Rightarrow> True)
      | JStr s \<Rightarrow> s \<noteq> []
      | JArr xs \<Rightarrow> xs \<noteq> []
      | JObj kvs \<Rightarrow> kvs \<noteq> [])"

text \<open>\<open>v[k]\<close> with a string key: only a dict accepts it.\<close>

definition getitem :: "json \<Rightarrow> string \<Rightarrow> error + json" where
  "getitem v k =
     (case v of
        JObj kvs \<Rightarrow> (case map_of kvs k of None \<Rightarrow> Inl (KeyError k) | Some x \<Rightarrow> Inr x)
      | _ \<Rightarrow> Inl TypeError)"

text \<open>\<open>needle in haystack\<close> on two strings: the substring test.\<close>

fun str_contains :: "string \<Rightarrow> string \<Rightarrow> bool" where
  "str_contains needle [] = (needle = [])"
| "str_contains needle (c # cs) = (prefix needle (c # cs) \<or> str_contains needle cs)"

text \<open>
  \<open>email in subscribers\<close> for a string \<open>email\<close>: membership in a list, key lookup in a
  dict, substring test in a string, TypeError on anything else.
\<close>

definition py_in :: "string \<Rightarrow> json \<Rightarrow> error + bool" where
  "py_in email v =
     (case v of
        JArr xs \<Rightarrow> Inr (JStr email \<in> set xs)
      | JObj kvs \<Rightarrow> Inr (email \<in> set (map fst kvs))
      | JStr s \<Rightarrow> Inr (str_contains email s)
      | _ \<Rightarrow> Inl TypeError)"

text \<open>\<open>v.append(x)\<close>: only a list has the method.\<close>

definition py_append :: "json \<Rightarrow> json \<Rightarrow> error + json" where
  "py_append v x = (case v of JArr xs \<Rightarrow> Inr (JArr (xs @ [x])) | _ \<Rightarrow> Inl AttributeError)"

text \<open>
  \<open>for email in v\<close>: the elements of a list, the keys of a dict, the characters of a
  string, TypeError on anything else.
\<close>

definition py_iter :: "json \<Rightarrow> error + json list" where
  "py_iter v =
     (case v of
        JArr xs \<Rightarrow> Inr xs
      | JObj kvs \<Rightarrow> Inr (map (\<lambda>kv. JStr (fst kv)) kvs)
      | JStr s \<Rightarrow> Inr (map (\<lambda>c. JStr [c]) s)
      | _ \<Rightarrow> Inl TypeError)"

section \<open>The format specifications \<open>,.2f\<close> and \<open>.2f\<close>\<close>

text \<open>The integer part with a comma between groups of three digits.\<close>

fun commas :: "nat \<Rightarrow> string" where
  "commas n =
     (if n < 1000 then digits n
      else commas (n div 1000) @ '','' @ zero_pad 3 (digits (n mod 1000)))"

declare commas.simps [simp del]

text \<open>\<open>n / d\<close> rounded to the nearest integer, a tie going to the even neighbour.\<close>

definition div_half_even :: "nat \<Rightarrow> nat \<Rightarrow> nat" where
  "div_half_even n d =
     (let q = n div d; r = n mod d
      in if 2 * r < d then q else if d < 2 * r then q + 1 else if even q then q else q + 1)"

text \<open>
  \<open>m * 2^e\<close> in hundredths: the float formatter rounds the exact binary value
  correctly, ties to even.
\<close>

definition hundredths :: "nat \<Rightarrow> int \<Rightarrow> nat" where
  "hundredths m e =
     (if 0 \<le> e then m * 100 * 2 ^ nat e else div_half_even (m * 100) (2 ^ nat (- e)))"

text \<open>Sign, integer part, point and two decimals of \<open>c\<close> hundredths.\<close>

definition format_hundredths :: "bool \<Rightarrow> bool \<Rightarrow> nat \<Rightarrow> string" where
  "format_hundredths grouping s c =
     (if s then ''-'' else []) @
     (if grouping then commas (c div 100) else digits (c div 100)) @
     ''.'' @ zero_pad 2 (digits (c mod 100))"

definition format_float_2f :: "bool \<Rightarrow> pyfloat \<Rightarrow> string" where
  "format_float_2f grouping x =
     (case x of
        NaN \<Rightarrow> ''nan''
      | Infinity s \<Rightarrow> (if s then ''-inf'' else ''inf'')
      | Finite s m e \<Rightarrow> format_hundredths grouping s (hundredths m e))"

text \<open>\<open>n.bit_length()\<close>.\<close>

fun bit_length :: "nat \<Rightarrow> nat" where
  "bit_length n = (if n = 0 then 0 else Suc (bit_length (n div 2)))"

declare bit_length.simps [simp del]

text \<open>
  The double nearest to \<open>(-1)^s * n / d\<close> (ties to even, 53 bits of mantissa), for a
  magnitude in the range of the normal doubles: what Python makes of a decimal
  literal, of a JSON number with a fraction, and of an int converted to float. With
  \<open>e0\<close> as below, \<open>n / d / 2^e0\<close> lies strictly between \<open>2^52\<close> and \<open>2^54\<close>.
\<close>

definition nearest_double :: "bool \<Rightarrow> nat \<Rightarrow> nat \<Rightarrow> pyfloat" where
  "nearest_double s n d =
     (if n = 0 then Finite s 0 0
      else
        (let e0 = int (bit_length n) - int (bit_length d) - 53;
             below = (if 0 \<le> e0 then n < 2 ^ 53 * d * 2 ^ nat e0
                      else n * 2 ^ nat (- e0) < 2 ^ 53 * d);
             e = (if below then e0 else e0 + 1);
             m = (if 0 \<le> e then div_half_even n (d * 2 ^ nat e)
                  else div_half_even (n * 2 ^ nat (- e)) d)
         in Finite s m e))"

text \<open>
  \<open>float(i)\<close>: the nearest double, and OverflowError when that would be
  \<open>2^1024\<close> or more (the mantissa is at most \<open>2^53\<close>).
\<close>

definition float_of_int :: "int \<Rightarrow> error + pyfloat" where
  "float_of_int i =
     (case nearest_double (i < 0) (nat \<bar>i\<bar>) 1 of
        Finite s m e \<Rightarrow>
          if 971 < e \<or> (e = 971 \<and> 2 ^ 53 \<le> m) then Inl OverflowError
          else Inr (Finite s m e)
      | x \<Rightarrow> Inr x)"

text \<open>
  \<open>format(v, ',.2f')\<close> (grouping) and \<open>format(v, '.2f')\<close>: an int or a bool is
  converted to float first, a string raises ValueError, \<open>None\<close>, a list and a dict
  raise TypeError.
\<close>

definition format_2f :: "bool \<Rightarrow> json \<Rightarrow> error + string" where
  "format_2f grouping v =
     (case v of
        JFloat x \<Rightarrow> Inr (format_float_2f grouping x)
      | JInt i \<Rightarrow> bind_err (float_of_int i) (\<lambda>x. Inr (format_float_2f grouping x))
      | JBool b \<Rightarrow>
          bind_err (float_of_int (if b then 1 else 0)) (\<lambda>x. Inr (format_float_2f grouping x))
      | JStr s \<Rightarrow> Inl ValueError
      | _ \<Rightarrow> Inl TypeError)"

section \<open>Digest Renderer: create_email_content\<close>

text \<open>What \<open>datetime.now()\<close> returns.\<close>

record datetime =
  year :: nat
  month :: nat
  day :: nat
  hour :: nat
  minute :: nat
  second :: nat
  microsecond :: nat

text \<open>\<open>strftime('%Y-%m-%d')\<close>.\<close>

definition strftime_Ymd :: "datetime \<Rightarrow> string" where
  "strftime_Ymd t =
     zero_pad 4 (digits (year t)) @ ''-'' @ zero_pad 2 (digits (month t)) @ ''-'' @
     zero_pad 2 (digits (day t))"

definition newline :: string where
  "newline = [CHR 0x0A]"

text \<open>
  The function reads the clock itself; the model takes the reading as the argument
  \<open>now\<close>. The four subscripts come first, then the fields of the f-string from left
  to right, so the first failing one decides the exception.
\<close>

definition create_email_content :: "datetime \<Rightarrow> json \<Rightarrow> error + string" where
  "create_email_content now crypto_data =
     bind_err (bind_err (getitem crypto_data ''bitcoin'') (\<lambda>d. getitem d ''usd'')) (\<lambda>btc_price.
     bind_err (bind_err (getitem crypto_data ''bitcoin'') (\<lambda>d. getitem d ''usd_24h_change'')) (\<lambda>btc_change.
     bind_err (bind_err (getitem crypto_data ''ethereum'') (\<lambda>d. getitem d ''usd'')) (\<lambda>eth_price.
     bind_err (bind_err (getitem crypto_data ''ethereum'') (\<lambda>d. getitem d ''usd_24h_change'')) (\<lambda>eth_change.
     bind_err (format_2f True btc_price) (\<lambda>btc_price_s.
     bind_err (format_2f False btc_change) (\<lambda>btc_change_s.
     bind_err (format_2f True eth_price) (\<lambda>eth_price_s.
     bind_err (format_2f False eth_change) (\<lambda>eth_change_s.
       Inr (newline @
            ''    <h2>Daily Cryptocurrency Update</h2>'' @ newline @
            ''    <p>Date: '' @ strftime_Ymd now @ ''</p>'' @ newline @
            ''    <h3>Bitcoin (BTC)</h3>'' @ newline @
            ''    <p>Current Price: $'' @ btc_price_s @ ''</p>'' @ newline @
            ''    <p>24h Change: '' @ btc_change_s @ ''%</p>'' @ newline @
            ''    <h3>Ethereum (ETH)</h3>'' @ newline @
            ''    <p>Current Price: $'' @ eth_price_s @ ''</p>'' @ newline @
            ''    <p>24h Change: '' @ eth_change_s @ ''%</p>'' @ newline @
            ''    '')))))))))"

section \<open>Subscriber Store: load_subscribers, save_subscribers\<close>

text \<open>
  \<open>load_subscribers\<close> returns whatever JSON value the file holds. The \<open>except\<close>
  clause turns FileNotFoundError and JSONDecodeError into the empty list; every
  other exception leaves the function.
\<close>

definition load_subscribers :: "world \<Rightarrow> (error + json) \<times> world" where
  "load_subscribers w =
     (case subscribers_json w of
        Absent \<Rightarrow> Inr (JArr [])
      | Contents (Inl JSONDecodeError) \<Rightarrow> Inr (JArr [])
      | Contents (Inl e) \<Rightarrow> Inl e
      | Contents (Inr v) \<Rightarrow> Inr v,
      w\<lparr>loads := loads w + 1\<rparr>)"

text \<open>\<open>json.dump\<close> writes a document that \<open>json.load\<close> decodes to the same value.\<close>

definition save_subscribers :: "json \<Rightarrow> world \<Rightarrow> world" where
  "save_subscribers subscribers w =
     w\<lparr>subscribers_json := Contents (Inr subscribers), saves := saves w @ [subscribers]\<rparr>"

section \<open>Email Sender: send_email\<close>

text \<open>
  One POST; the returned pair is \<open>(response.status_code == 200, response.json())\<close>, so
  the body is decoded whatever the status is. The bearer token and the sender
  identity are constants of the request and do not appear.
\<close>

definition send_email :: "env \<Rightarrow> json \<Rightarrow> string \<Rightarrow> string \<Rightarrow> world \<Rightarrow> (error + bool \<times> json) \<times> world" where
  "send_email E recipient subject html_content w =
     (let response = email_api E (length (posts w));
          w1 = w\<lparr>posts := posts w @ [(recipient, subject, html_content)]\<rparr>
      in (bind_err (response_json response) (\<lambda>body. Inr (status_code response = 200, body)), w1))"

section \<open>Daily Dispatcher: send_daily_updates\<close>

text \<open>The loop \<open>for email in subscribers\<close>; an exception of \<open>send_email\<close> leaves it.\<close>

fun send_loop :: "env \<Rightarrow> string \<Rightarrow> string \<Rightarrow> json list \<Rightarrow> world \<Rightarrow> (error + unit) \<times> world" where
  "send_loop E subject email_content [] w = (Inr (), w)"
| "send_loop E subject email_content (email # rest) w =
     (case send_email E email subject email_content w of
        (Inl e, w1) \<Rightarrow> (Inl e, w1)
      | (Inr (success, response), w1) \<Rightarrow>
          send_loop E subject email_content rest
            (w1\<lparr>stdout := stdout w1 @
               [if success then SentOk email else SendFailed email response]\<rparr>))"

text \<open>\<open>now\<close> is the clock reading taken inside \<open>create_email_content\<close>.\<close>

definition send_daily_updates :: "env \<Rightarrow> datetime \<Rightarrow> world \<Rightarrow> (error + unit) \<times> world" where
  "send_daily_updates E now w =
     (case load_subscribers w of
        (Inl e, w0) \<Rightarrow> (Inl e, w0)
      | (Inr subscribers, w0) \<Rightarrow>
          if \<not> truthy subscribers then (Inr (), w0\<lparr>stdout := stdout w0 @ [NoSubscribers]\<rparr>)
          else
            (case fetch_crypto_data E 3 5 w0 of
               (Inl e, w1) \<Rightarrow> (Inl e, w1)
             | (Inr crypto_data, w1) \<Rightarrow>
                 if \<not> truthy crypto_data then (Inr (), w1\<lparr>stdout := stdout w1 @ [FetchFailed]\<rparr>)
                 else
                   (case create_email_content now crypto_data of
                      Inl e \<Rightarrow> (Inl e, w1)
                    | Inr email_content \<Rightarrow>
                        (case py_iter subscribers of
                           Inl e \<Rightarrow> (Inl e, w1)
                         | Inr emails \<Rightarrow>
                             send_loop E ''Daily Cryptocurrency Update'' email_content emails w1))))"

section \<open>The subscribe form of main\<close>

text \<open>
  The body of \<open>if st.button("Subscribe")\<close>, with the text of the input field as
  \<open>email\<close>. The outcome shows in the banner.
\<close>

definition subscribe :: "string \<Rightarrow> world \<Rightarrow> (error + unit) \<times> world" where
  "subscribe email w =
     (if email = [] \<or> \<not> str_contains ''@'' email then
        (Inr (), w\<lparr>notices := notices w @ [Error ''Please enter a valid email address.'']\<rparr>)
      else
        (case load_subscribers w of
           (Inl e, w1) \<Rightarrow> (Inl e, w1)
         | (Inr subscribers, w1) \<Rightarrow>
             (case py_in email subscribers of
                Inl e \<Rightarrow> (Inl e, w1)
              | Inr True \<Rightarrow>
                  (Inr (), w1\<lparr>notices := notices w1 @ [Info ''You are already subscribed!'']\<rparr>)
              | Inr False \<Rightarrow>
                  (case py_append subscribers (JStr email) of
                     Inl e \<Rightarrow> (Inl e, w1)
                   | Inr subscribers' \<Rightarrow>
                       (let w2 = save_subscribers subscribers' w1
                        in (Inr (),
                            w2\<lparr>notices := notices w2 @
                               [Success ''Successfully subscribed to daily cryptocurrency updates!'']\<rparr>))))))"

section \<open>Sample inputs\<close>

text \<open>A fresh process: nothing requested, shown or printed yet, no subscriber file.\<close>

definition world0 :: world where
  "world0 = \<lparr>gets = 0, posts = [], sleeps = [], notices = [], stdout = [],
              subscribers_json = Absent, loads = 0, saves = []\<rparr>"

text \<open>
  The snapshot \<open>{bitcoin: {usd: 65000.5, usd_24h_change: -2.345},
  ethereum: {usd: 3200.0, usd_24h_change: 1.2}}\<close>, each literal read as a double.
\<close>

definition sample_snapshot :: json where
  "sample_snapshot =
     JObj [(''bitcoin'', JObj [(''usd'', JFloat (nearest_double False 650005 10)),
                               (''usd_24h_change'', JFloat (nearest_double True 2345 1000))]),
           (''ethereum'', JObj [(''usd'', JFloat (nearest_double False 32000 10)),
                                (''usd_24h_change'', JFloat (nearest_double False 12 10))])]"

definition rate_limited :: response where
  "rate_limited = \<lparr>status_code = 429, json_body = None\<rparr>"

definition ok_response :: "json \<Rightarrow> response" where
  "ok_response body = \<lparr>status_code = 200, json_body = Some body\<rparr>"

text \<open>A gateway error page: status 502 with an HTML body.\<close>

definition bad_gateway :: response where
  "bad_gateway = \<lparr>status_code = 502, json_body = None\<rparr>"

text \<open>The price API is rate limited twice and then answers.\<close>

definition env_two_429 :: env where
  "env_two_429 =
     \<lparr>price_api = (\<lambda>n. if n < 2 then rate_limited else ok_response sample_snapshot),
      email_api = (\<lambda>n. ok_response (JObj [])),
      sleep_accepted = (\<lambda>n secs. True)\<rparr>"

text \<open>The price API is rate limited for good.\<close>

definition env_always_429 :: env where
  "env_always_429 =
     \<lparr>price_api = (\<lambda>n. rate_limited), email_api = (\<lambda>n. ok_response (JObj [])),
      sleep_accepted = (\<lambda>n secs. True)\<rparr>"

text \<open>The email API answers the first POST with a gateway error page.\<close>

definition env_bad_gateway :: env where
  "env_bad_gateway =
     \<lparr>price_api = (\<lambda>n. ok_response sample_snapshot),
      email_api = (\<lambda>n. if n = 0 then bad_gateway else ok_response (JObj [])),
      sleep_accepted = (\<lambda>n secs. True)\<rparr>"

definition two_subscribers :: world where
  "two_subscribers =
     world0\<lparr>subscribers_json := Contents (Inr (JArr [JStr ''a@x.com'', JStr ''b@y.com'']))\<rparr>"

definition morning :: datetime where
  "morning = \<lparr>year = 2024, month = 1, day = 15, hour = 8, minute = 0, second = 0,
               microsecond = 0\<rparr>"


text \<open>The digest for \<open>sample_snapshot\<close> on 2024-01-15, as the template lays it out.\<close>

definition sample_body :: string where
  "sample_body =
     newline @
     ''    <h2>Daily Cryptocurrency Update</h2>'' @ newline @
     ''    <p>Date: 2024-01-15</p>'' @ newline @
     ''    <h3>Bitcoin (BTC)</h3>'' @ newline @
     ''    <p>Current Price: $65,000.50</p>'' @ newline @
     ''    <p>24h Change: -2.35%</p>'' @ newline @
     ''    <h3>Ethereum (ETH)</h3>'' @ newline @
     ''    <p>Current Price: $3,200.00</p>'' @ newline @
     ''    <p>24h Change: 1.20%</p>'' @ newline @
     ''    ''"

text \<open>The email API accepts every POST with status 200 and an HTML page as body.\<close>

definition env_html_200 :: env where
  "env_html_200 =
     \<lparr>price_api = (\<lambda>n. ok_response sample_snapshot),
      email_api = (\<lambda>n. \<lparr>status_code = 200, json_body = None\<rparr>),
      sleep_accepted = (\<lambda>n secs. True)\<rparr>"

text \<open>A subscriber file that is text but not JSON, and one that is not text.\<close>

definition corrupt_file :: world where
  "corrupt_file = world0\<lparr>subscribers_json := Contents (Inl JSONDecodeError)\<rparr>"

definition not_text_file :: world where
  "not_text_file = world0\<lparr>subscribers_json := Contents (Inl UnicodeDecodeError)\<rparr>"


section \<open>Unfolding the recursive functions one step at a time\<close>

lemma digits_small: "n < 10 \<Longrightarrow> digits n = [digit_char n]"
  by (simp add: digits.simps)

lemma digits_large: "\<not> n < 10 \<Longrightarrow> digits n = digits (n div 10) @ [digit_char (n mod 10)]"
  by (subst digits.simps) simp

lemma commas_small: "n < 1000 \<Longrightarrow> commas n = digits n"
  by (simp add: commas.simps)

lemma commas_large:
  "\<not> n < 1000 \<Longrightarrow> commas n = commas (n div 1000) @ '','' @ zero_pad 3 (digits (n mod 1000))"
  by (subst commas.simps) simp

lemma bit_length_zero: "bit_length 0 = 0"
  by (simp add: bit_length.simps)

lemma bit_length_pos: "0 < n \<Longrightarrow> bit_length n = Suc (bit_length (n div 2))"
  by (subst bit_length.simps) simp

lemma zero_pad_short: "length s < k \<Longrightarrow> zero_pad k s = zero_pad k (CHR ''0'' # s)"
proof -
  assume "length s < k"
  then have "k - length s = Suc (k - Suc (length s))" by arith
  then show ?thesis by (simp add: zero_pad_def replicate_app_Cons_same)
qed

lemma zero_pad_done: "\<not> length s < k \<Longrightarrow> zero_pad k s = s"
  by (simp add: zero_pad_def)

lemmas number_eval = digits_small digits_large commas_small commas_large digit_char_def
  zero_pad_short zero_pad_done

lemmas double_eval = nearest_double_def div_half_even_def bit_length_zero bit_length_pos Let_def

lemma str_int_5: "str_int 5 = ''5''"
  by (simp add: str_int_def number_eval)

lemma str_int_10: "str_int 10 = ''10''"
  by (simp add: str_int_def number_eval)

section \<open>The retry loop\<close>

lemma fetch_loop_exit:
  "\<not> attempt < max_retries \<Longrightarrow> fetch_loop E max_retries attempt retry_delay w = (Inr JNull, w)"
  by (simp add: fetch_loop.simps)

lemma fetch_loop_200:
  "attempt < max_retries \<Longrightarrow> status_code (price_api E (gets w)) = 200 \<Longrightarrow>
   fetch_loop E max_retries attempt retry_delay w =
     (response_json (price_api E (gets w)), w\<lparr>gets := gets w + 1\<rparr>)"
  by (simp add: fetch_loop.simps)

lemma sleep_max_value: "sleep_max = 9223372036"
  by (simp add: sleep_max_def)

lemma time_sleep_slept:
  "0 \<le> secs \<Longrightarrow> secs \<le> sleep_max \<Longrightarrow> sleep_accepted E (length (sleeps w)) secs \<Longrightarrow>
   time_sleep E secs w = Inr (w\<lparr>sleeps := sleeps w @ [secs]\<rparr>)"
  by (simp add: time_sleep_def sleep_max_value)

lemma time_sleep_too_long: "sleep_max < secs \<Longrightarrow> time_sleep E secs w = Inl OverflowError"
  by (simp add: time_sleep_def)

lemma time_sleep_negative:
  "secs < 0 \<Longrightarrow> - sleep_max \<le> secs \<Longrightarrow> time_sleep E secs w = Inl ValueError"
  by (simp add: time_sleep_def sleep_max_value)

lemma time_sleep_refused:
  "0 \<le> secs \<Longrightarrow> secs \<le> sleep_max \<Longrightarrow> \<not> sleep_accepted E (length (sleeps w)) secs \<Longrightarrow>
   time_sleep E secs w = Inl OSError"
  by (simp add: time_sleep_def sleep_max_value)

lemma str_limit_large: "10 ^ 11 \<le> str_limit"
  unfolding str_limit_def by (rule power_increasing) simp_all

lemma py_str_shown: "\<bar>i\<bar> < str_limit \<Longrightarrow> py_str i = Inr (str_int i)"
  by (simp add: py_str_def)

lemma py_str_sleepable: "0 \<le> i \<Longrightarrow> i \<le> sleep_max \<Longrightarrow> py_str i = Inr (str_int i)"
proof -
  assume "0 \<le> i" and "i \<le> sleep_max"
  then have "\<bar>i\<bar> < 10 ^ 11"
    by (simp add: sleep_max_value)
  then have "\<bar>i\<bar> < str_limit"
    using str_limit_large by (rule less_le_trans)
  then show ?thesis
    by (rule py_str_shown)
qed

lemma fetch_loop_429_retry:
  "attempt < max_retries - 1 \<Longrightarrow> status_code (price_api E (gets w)) = 429 \<Longrightarrow>
   0 \<le> retry_delay \<Longrightarrow> retry_delay \<le> sleep_max \<Longrightarrow>
   sleep_accepted E (length (sleeps w)) retry_delay \<Longrightarrow>
   fetch_loop E max_retries attempt retry_delay w =
     fetch_loop E max_retries (attempt + 1) (retry_delay * 2)
       (w\<lparr>gets := gets w + 1,
          notices := notices w @ [retry_warning retry_delay],
          sleeps := sleeps w @ [retry_delay]\<rparr>)"
  by (subst fetch_loop.simps)
     (simp add: Let_def time_sleep_slept py_str_sleepable retry_warning_def)

lemma fetch_loop_429_no_sleep:
  "attempt < max_retries - 1 \<Longrightarrow> status_code (price_api E (gets w)) = 429 \<Longrightarrow>
   \<bar>retry_delay\<bar> < str_limit \<Longrightarrow>
   time_sleep E retry_delay
     (w\<lparr>gets := gets w + 1, notices := notices w @ [retry_warning retry_delay]\<rparr>) = Inl e \<Longrightarrow>
   fetch_loop E max_retries attempt retry_delay w =
     (Inl e, w\<lparr>gets := gets w + 1, notices := notices w @ [retry_warning retry_delay]\<rparr>)"
  by (subst fetch_loop.simps) (simp add: Let_def py_str_shown retry_warning_def)

lemma fetch_loop_429_no_text:
  "attempt < max_retries - 1 \<Longrightarrow> status_code (price_api E (gets w)) = 429 \<Longrightarrow>
   str_limit \<le> \<bar>retry_delay\<bar> \<Longrightarrow>
   fetch_loop E max_retries attempt retry_delay w = (Inl ValueError, w\<lparr>gets := gets w + 1\<rparr>)"
  by (subst fetch_loop.simps) (simp add: Let_def py_str_def)

lemma fetch_loop_429_last:
  "attempt < max_retries \<Longrightarrow> \<not> attempt < max_retries - 1 \<Longrightarrow>
   status_code (price_api E (gets w)) = 429 \<Longrightarrow>
   fetch_loop E max_retries attempt retry_delay w =
     fetch_loop E max_retries (attempt + 1) retry_delay
       (w\<lparr>gets := gets w + 1,
          notices := notices w @ [Error ''Rate limit exceeded. Please try again later.'']\<rparr>)"
  by (subst fetch_loop.simps) (simp add: Let_def)

lemma fetch_loop_other_status:
  "attempt < max_retries \<Longrightarrow> status_code (price_api E (gets w)) \<noteq> 200 \<Longrightarrow>
   status_code (price_api E (gets w)) \<noteq> 429 \<Longrightarrow>
   \<bar>status_code (price_api E (gets w))\<bar> < str_limit \<Longrightarrow>
   fetch_loop E max_retries attempt retry_delay w =
     (Inr JNull,
      w\<lparr>gets := gets w + 1,
        notices := notices w @
          [Error (''Error fetching data: '' @ str_int (status_code (price_api E (gets w))))]\<rparr>)"
  by (subst fetch_loop.simps) (simp add: Let_def py_str_shown)

text \<open>
  From any attempt with \<open>k\<close> attempts to spare: \<open>k\<close> rate-limit responses and then a
  200 give \<open>k\<close> sleeps, each twice the one before, and the decoded body.
\<close>

lemma fetch_loop_backoff:
  "attempt + int k < max_retries \<Longrightarrow> (0 < k \<longrightarrow> 0 \<le> retry_delay) \<Longrightarrow>
   \<forall>i<k. retry_delay * 2 ^ i \<le> sleep_max \<Longrightarrow>
   \<forall>i<k. sleep_accepted E (length (sleeps w) + i) (retry_delay * 2 ^ i) \<Longrightarrow>
   \<forall>i<k. status_code (price_api E (gets w + i)) = 429 \<Longrightarrow>
   status_code (price_api E (gets w + k)) = 200 \<Longrightarrow>
   fetch_loop E max_retries attempt retry_delay w =
     (response_json (price_api E (gets w + k)),
      w\<lparr>gets := gets w + k + 1,
        notices := notices w @ map (\<lambda>i. retry_warning (retry_delay * 2 ^ i)) [0..<k],
        sleeps := sleeps w @ map (\<lambda>i. retry_delay * 2 ^ i) [0..<k]\<rparr>)"
proof (induction k arbitrary: attempt retry_delay w)
  case 0
  then show ?case by (simp add: fetch_loop_200)
next
  case (Suc k)
  let ?w = "w\<lparr>gets := gets w + 1,
          notices := notices w @ [retry_warning retry_delay],
          sleeps := sleeps w @ [retry_delay]\<rparr>"
  from Suc.prems have delay: "0 \<le> retry_delay"
    by simp
  have short: "retry_delay \<le> sleep_max"
    using Suc.prems(3) [rule_format, of 0] by simp
  have accepted: "sleep_accepted E (length (sleeps w)) retry_delay"
    using Suc.prems(4) [rule_format, of 0] by simp
  have first: "status_code (price_api E (gets w)) = 429"
    using Suc.prems(5) [rule_format, of 0] by simp
  have step: "fetch_loop E max_retries attempt retry_delay w =
        fetch_loop E max_retries (attempt + 1) (retry_delay * 2) ?w"
    using Suc.prems(1) first delay short accepted by (simp add: fetch_loop_429_retry)
  have shorts: "\<forall>i<k. retry_delay * 2 * 2 ^ i \<le> sleep_max"
  proof (intro allI impI)
    fix i assume "i < k"
    then show "retry_delay * 2 * 2 ^ i \<le> sleep_max"
      using Suc.prems(3) [rule_format, of "Suc i"] by (simp add: mult.assoc)
  qed
  have accepts: "\<forall>i<k. sleep_accepted E (length (sleeps ?w) + i) (retry_delay * 2 * 2 ^ i)"
  proof (intro allI impI)
    fix i assume "i < k"
    then show "sleep_accepted E (length (sleeps ?w) + i) (retry_delay * 2 * 2 ^ i)"
      using Suc.prems(4) [rule_format, of "Suc i"] by (simp add: mult.assoc)
  qed
  have rest: "\<forall>i<k. status_code (price_api E (gets ?w + i)) = 429"
    using Suc.prems(5) by auto
  have last: "status_code (price_api E (gets ?w + k)) = 200"
    using Suc.prems(6) by simp
  have "fetch_loop E max_retries (attempt + 1) (retry_delay * 2) ?w =
     (response_json (price_api E (gets ?w + k)),
      ?w\<lparr>gets := gets ?w + k + 1,
        notices := notices ?w @ map (\<lambda>i. retry_warning (retry_delay * 2 * 2 ^ i)) [0..<k],
        sleeps := sleeps ?w @ map (\<lambda>i. retry_delay * 2 * 2 ^ i) [0..<k]\<rparr>)"
    using Suc.prems(1) delay shorts accepts rest last by (intro Suc.IH) auto
  then show ?case
    unfolding step by (simp add: map_upt_Suc mult.assoc del: upt_Suc)
qed

section \<open>Claims about the Price Fetcher\<close>

text \<open>
  C1. Let \<open>k < max_retries\<close>. If the price API answers 429 to each of the first \<open>k\<close>
  attempts and 200 to attempt \<open>k + 1\<close>, then \<open>fetch_crypto_data\<close> sleeps exactly
  \<open>k\<close> times, the sleeps lasting \<open>retry_delay\<close>, \<open>2 * retry_delay\<close>, ...,
  \<open>2^(k-1) * retry_delay\<close> seconds, issues \<open>k + 1\<close> requests, announces each retry,
  and returns what \<open>response.json()\<close> makes of the body of the 200 response. The
  durations are ones that can be slept: not negative, the longest of them within
  \<open>sleep_max\<close>, and each accepted by the operating system.
\<close>

theorem fetch_crypto_data_backoff:
  assumes "int k < max_retries"
    and "0 < k \<longrightarrow> 0 \<le> retry_delay \<and> retry_delay * 2 ^ (k - 1) \<le> sleep_max"
    and "\<forall>i<k. sleep_accepted E (length (sleeps w) + i) (retry_delay * 2 ^ i)"
    and "\<forall>i<k. status_code (price_api E (gets w + i)) = 429"
    and "status_code (price_api E (gets w + k)) = 200"
  shows "fetch_crypto_data E max_retries retry_delay w =
     (response_json (price_api E (gets w + k)),
      w\<lparr>gets := gets w + k + 1,
        notices := notices w @ map (\<lambda>i. retry_warning (retry_delay * 2 ^ i)) [0..<k],
        sleeps := sleeps w @ map (\<lambda>i. retry_delay * 2 ^ i) [0..<k]\<rparr>)"
proof -
  have shorts: "\<forall>i<k. retry_delay * 2 ^ i \<le> sleep_max"
  proof (intro allI impI)
    fix i assume "i < k"
    with assms(2) have delay: "0 \<le> retry_delay"
      and longest: "retry_delay * 2 ^ (k - 1) \<le> sleep_max"
      by auto
    from \<open>i < k\<close> have "(2::int) ^ i \<le> 2 ^ (k - 1)"
      by (intro power_increasing) auto
    with delay have "retry_delay * 2 ^ i \<le> retry_delay * 2 ^ (k - 1)"
      by (simp add: mult_left_mono)
    with longest show "retry_delay * 2 ^ i \<le> sleep_max"
      by simp
  qed
  show ?thesis
    unfolding fetch_crypto_data_def
    using assms shorts by (intro fetch_loop_backoff) auto
qed

theorem fetch_crypto_data_backoff_witness:
  "int 2 < 3 \<and> (0::int) \<le> 5 \<and> 5 * 2 ^ (2 - 1) \<le> sleep_max \<and>
   sleep_accepted env_two_429 0 5 \<and> sleep_accepted env_two_429 1 10 \<and>
   status_code (price_api env_two_429 0) = 429 \<and>
   status_code (price_api env_two_429 1) = 429 \<and>
   status_code (price_api env_two_429 2) = 200 \<and>
   fetch_crypto_data env_two_429 3 5 world0 =
     (Inr sample_snapshot,
      world0\<lparr>gets := 3,
        notices := [Warning ''Rate limit hit. Retrying in 5 seconds...'',
                    Warning ''Rate limit hit. Retrying in 10 seconds...''],
        sleeps := [5, 10]\<rparr>)"
proof -
  have bound: "0 < (2::nat) \<longrightarrow> (0::int) \<le> 5 \<and> 5 * 2 ^ (2 - 1) \<le> sleep_max"
    by (simp add: sleep_max_value)
  have accepted: "\<forall>i<2. sleep_accepted env_two_429 (length (sleeps world0) + i) (5 * 2 ^ i)"
    by (simp add: env_two_429_def)
  have all: "\<forall>i<2. status_code (price_api env_two_429 (gets world0 + i)) = 429"
    by (simp add: env_two_429_def rate_limited_def world0_def)
  have final: "status_code (price_api env_two_429 (gets world0 + 2)) = 200"
    by (simp add: env_two_429_def ok_response_def world0_def)
  have upt: "[0..<2] = [0, Suc 0]"
    by (simp add: upt_rec)
  show ?thesis
    using fetch_crypto_data_backoff [of 2 3 5 env_two_429 world0] bound accepted all final
    by (simp add: upt env_two_429_def rate_limited_def ok_response_def world0_def
        response_json_def retry_warning_def str_int_5 str_int_10 sleep_max_value)
qed

text \<open>
  C2. With \<open>max_retries = 3\<close> and a 429 response to every attempt, \<open>fetch_crypto_data\<close>
  issues exactly three requests, sleeps exactly twice (\<open>retry_delay\<close> and
  \<open>2 * retry_delay\<close> seconds, nothing after the third attempt), reports
  "Rate limit exceeded" and returns \<open>None\<close>. The two durations are ones that can be
  slept: not negative, within \<open>sleep_max\<close>, and accepted by the operating system.
\<close>

theorem fetch_crypto_data_exhausted:
  assumes "\<forall>i<3. status_code (price_api E (gets w + i)) = 429"
    and "0 \<le> retry_delay" and "retry_delay * 2 \<le> sleep_max"
    and "sleep_accepted E (length (sleeps w)) retry_delay"
    and "sleep_accepted E (Suc (length (sleeps w))) (retry_delay * 2)"
  shows "fetch_crypto_data E 3 retry_delay w =
     (Inr JNull,
      w\<lparr>gets := gets w + 3,
        notices := notices w @
          [retry_warning retry_delay, retry_warning (retry_delay * 2),
           Error ''Rate limit exceeded. Please try again later.''],
        sleeps := sleeps w @ [retry_delay, retry_delay * 2]\<rparr>)"
proof -
  have r0: "status_code (price_api E (gets w)) = 429"
    using assms(1) [rule_format, of 0] by simp
  have r1: "status_code (price_api E (Suc (gets w))) = 429"
    using assms(1) [rule_format, of 1] by simp
  have r2: "status_code (price_api E (Suc (Suc (gets w)))) = 429"
    using assms(1) [rule_format, of 2] by simp
  have short: "retry_delay \<le> sleep_max"
    using assms(2,3) by simp
  show ?thesis
    unfolding fetch_crypto_data_def
    using r0 r1 r2 short assms(2-5)
    by (simp add: fetch_loop_429_retry fetch_loop_429_last fetch_loop_exit)
qed

theorem fetch_crypto_data_exhausted_witness:
  "status_code (price_api env_always_429 0) = 429 \<and>
   status_code (price_api env_always_429 1) = 429 \<and>
   status_code (price_api env_always_429 2) = 429 \<and> (0::int) \<le> 5 \<and> 5 * 2 \<le> sleep_max \<and>
   sleep_accepted env_always_429 0 5 \<and> sleep_accepted env_always_429 1 10 \<and>
   fetch_crypto_data env_always_429 3 5 world0 =
     (Inr JNull,
      world0\<lparr>gets := 3,
        notices := [Warning ''Rate limit hit. Retrying in 5 seconds...'',
                    Warning ''Rate limit hit. Retrying in 10 seconds...'',
                    Error ''Rate limit exceeded. Please try again later.''],
        sleeps := [5, 10]\<rparr>)"
  using fetch_crypto_data_exhausted [of env_always_429 world0 5]
  by (simp add: env_always_429_def rate_limited_def world0_def retry_warning_def
      str_int_5 str_int_10 sleep_max_value)

text \<open>
  Beyond \<open>sleep_max\<close> the first sleep raises: one request, no sleep, no value.
\<close>

lemma fetch_crypto_data_sleep_overflow:
  "fetch_crypto_data env_always_429 3 10000000000 world0 =
     (Inl OverflowError,
      world0\<lparr>gets := 1, notices := [retry_warning 10000000000]\<rparr>)"
proof -
  have "time_sleep env_always_429 10000000000
      (world0\<lparr>gets := gets world0 + 1,
         notices := notices world0 @ [retry_warning 10000000000]\<rparr>) = Inl OverflowError"
    by (rule time_sleep_too_long) (simp add: sleep_max_value)
  then have "fetch_loop env_always_429 3 0 10000000000 world0 =
      (Inl OverflowError,
       world0\<lparr>gets := gets world0 + 1,
         notices := notices world0 @ [retry_warning 10000000000]\<rparr>)"
  proof (intro fetch_loop_429_no_sleep)
    have "\<bar>10000000000::int\<bar> < 10 ^ 11"
      by simp
    then show "\<bar>10000000000::int\<bar> < str_limit"
      using str_limit_large by (rule less_le_trans)
  qed (simp_all add: env_always_429_def rate_limited_def)
  then show ?thesis
    by (simp add: fetch_crypto_data_def world0_def)
qed

section \<open>The substring test\<close>

lemma str_contains_sublist: "str_contains needle haystack \<longleftrightarrow> sublist needle haystack"
  by (induction haystack) (simp_all add: sublist_Cons_right)

lemma str_contains_at: "str_contains ''@'' email \<longleftrightarrow> CHR ''@'' \<in> set email"
  by (induction email) auto

lemma str_contains_empty: "\<not> str_contains ''@'' []"
  by simp

section \<open>The doubles of the sample snapshot and their two-decimal forms\<close>

lemma double_65000_5: "nearest_double False 650005 10 = Finite False 8933600695156736 (- 37)"
  by (simp add: double_eval)

lemma double_minus_2_345: "nearest_double True 2345 1000 = Finite True 5280470563091907 (- 51)"
  by (simp add: double_eval)

lemma double_3200: "nearest_double False 32000 10 = Finite False 7036874417766400 (- 41)"
  by (simp add: double_eval)

lemma double_1_2: "nearest_double False 12 10 = Finite False 5404319552844595 (- 52)"
  by (simp add: double_eval)

text \<open>
  \<open>-2.345\<close> is not a double; the nearest one is a little larger in magnitude, so two
  decimals give \<open>-2.35\<close>, whereas the exact tie would go to the even \<open>-2.34\<close>.
\<close>

lemma double_minus_2_345_above: "2345 * 2 ^ 51 < 5280470563091907 * (1000::nat)"
  by simp

text \<open>
  Each is a 53-bit mantissa within half a unit in the last place of the decimal: for
  \<open>n / d\<close> and \<open>m * 2^(-k)\<close> that is \<open>2 * |m * d - n * 2^k| \<le> d\<close>.
\<close>

lemma sample_doubles_nearest:
  "2 * (8933600695156736 * 10 - 650005 * 2 ^ 37) \<le> (10::int)"
  "2 * (5280470563091907 * 1000 - 2345 * 2 ^ 51) \<le> (1000::int)"
  "2 * (7036874417766400 * 10 - 32000 * 2 ^ 41) \<le> (10::int)"
  "2 * (12 * 2 ^ 52 - 5404319552844595 * 10) \<le> (10::int)"
  "(2::nat) ^ 52 \<le> 8933600695156736 \<and> 8933600695156736 < (2::nat) ^ 53"
  "(2::nat) ^ 52 \<le> 5280470563091907 \<and> 5280470563091907 < (2::nat) ^ 53"
  "(2::nat) ^ 52 \<le> 7036874417766400 \<and> 7036874417766400 < (2::nat) ^ 53"
  "(2::nat) ^ 52 \<le> 5404319552844595 \<and> 5404319552844595 < (2::nat) ^ 53"
  by simp_all

lemma hundredths_65000_5: "hundredths 8933600695156736 (- 37) = 6500050"
  by (simp add: hundredths_def div_half_even_def Let_def)

lemma hundredths_2_345: "hundredths 5280470563091907 (- 51) = 235"
  by (simp add: hundredths_def div_half_even_def Let_def)

lemma hundredths_3200: "hundredths 7036874417766400 (- 41) = 320000"
  by (simp add: hundredths_def div_half_even_def Let_def)

lemma hundredths_1_2: "hundredths 5404319552844595 (- 52) = 120"
  by (simp add: hundredths_def div_half_even_def Let_def)

lemma format_65000_5: "format_float_2f True (nearest_double False 650005 10) = ''65,000.50''"
  unfolding double_65000_5 format_float_2f_def pyfloat.case hundredths_65000_5
  by (simp add: format_hundredths_def number_eval)

lemma format_minus_2_345: "format_float_2f False (nearest_double True 2345 1000) = ''-2.35''"
  unfolding double_minus_2_345 format_float_2f_def pyfloat.case hundredths_2_345
  by (simp add: format_hundredths_def number_eval)

lemma format_3200: "format_float_2f True (nearest_double False 32000 10) = ''3,200.00''"
  unfolding double_3200 format_float_2f_def pyfloat.case hundredths_3200
  by (simp add: format_hundredths_def number_eval)

lemma format_1_2: "format_float_2f False (nearest_double False 12 10) = ''1.20''"
  unfolding double_1_2 format_float_2f_def pyfloat.case hundredths_1_2
  by (simp add: format_hundredths_def number_eval)

lemma strftime_2024_01_15:
  "strftime_Ymd \<lparr>year = 2024, month = 1, day = 15, hour = h, minute = mi, second = s,
     microsecond = us\<rparr> = ''2024-01-15''"
  by (simp add: strftime_Ymd_def number_eval)

section \<open>Claims about the Digest Renderer\<close>

text \<open>On a snapshot with four floats no subscript and no format can fail.\<close>

lemma create_email_content_floats:
  "create_email_content now
     (JObj [(''bitcoin'', JObj [(''usd'', JFloat a), (''usd_24h_change'', JFloat b)]),
            (''ethereum'', JObj [(''usd'', JFloat c), (''usd_24h_change'', JFloat d)])]) =
   Inr (newline @
        ''    <h2>Daily Cryptocurrency Update</h2>'' @ newline @
        ''    <p>Date: '' @ strftime_Ymd now @ ''</p>'' @ newline @
        ''    <h3>Bitcoin (BTC)</h3>'' @ newline @
        ''    <p>Current Price: $'' @ format_float_2f True a @ ''</p>'' @ newline @
        ''    <p>24h Change: '' @ format_float_2f False b @ ''%</p>'' @ newline @
        ''    <h3>Ethereum (ETH)</h3>'' @ newline @
        ''    <p>Current Price: $'' @ format_float_2f True c @ ''</p>'' @ newline @
        ''    <p>24h Change: '' @ format_float_2f False d @ ''%</p>'' @ newline @
        ''    '')"
  by (simp add: create_email_content_def getitem_def bind_err_def format_2f_def)

lemma create_email_content_sample:
  "create_email_content
     \<lparr>year = 2024, month = 1, day = 15, hour = h, minute = mi, second = s, microsecond = us\<rparr>
     sample_snapshot = Inr sample_body"
  unfolding sample_snapshot_def create_email_content_floats format_65000_5 format_minus_2_345
    format_3200 format_1_2 strftime_2024_01_15 sample_body_def
  by simp







text \<open>
  C6. For the snapshot \<open>{bitcoin: {usd: 65000.5, usd_24h_change: -2.345},
  ethereum: {usd: 3200.0, usd_24h_change: 1.2}}\<close> on 2024-01-15, at any time of the
  day, the body is \<open>sample_body\<close>, which contains "Current Price: $65,000.50",
  "24h Change: -2.35%", "Current Price: $3,200.00" and "24h Change: 1.20%".
\<close>

theorem create_email_content_scenario:
  "create_email_content
     \<lparr>year = 2024, month = 1, day = 15, hour = h, minute = mi, second = s, microsecond = us\<rparr>
     sample_snapshot = Inr sample_body \<and>
   str_contains ''Current Price: $65,000.50'' sample_body \<and>
   str_contains ''24h Change: -2.35%'' sample_body \<and>
   str_contains ''Current Price: $3,200.00'' sample_body \<and>
   str_contains ''24h Change: 1.20%'' sample_body"
proof -
  have "str_contains ''Current Price: $65,000.50'' sample_body"
    by (simp add: sample_body_def newline_def)
  moreover have "str_contains ''24h Change: -2.35%'' sample_body"
    by (simp add: sample_body_def newline_def)
  moreover have "str_contains ''Current Price: $3,200.00'' sample_body"
    by (simp add: sample_body_def newline_def)
  moreover have "str_contains ''24h Change: 1.20%'' sample_body"
    by (simp add: sample_body_def newline_def)
  ultimately show ?thesis
    using create_email_content_sample [of h mi s us] by blast
qed

section \<open>Claims about the Subscriber Store and the subscribe form\<close>

lemma load_subscribers_file:
  "subscribers_json w' = subscribers_json w \<Longrightarrow>
   fst (load_subscribers w') = fst (load_subscribers w)"
  by (simp add: load_subscribers_def)

lemma load_after_save: "fst (load_subscribers (save_subscribers v w)) = Inr v"
  by (simp add: load_subscribers_def save_subscribers_def)

text \<open>The three ways through the subscribe form when the file holds a list.\<close>

lemma subscribe_invalid:
  "\<not> str_contains ''@'' email \<Longrightarrow>
   subscribe email w =
     (Inr (), w\<lparr>notices := notices w @ [Error ''Please enter a valid email address.'']\<rparr>)"
  by (simp add: subscribe_def)

lemma subscribe_present:
  assumes "str_contains ''@'' email" and "fst (load_subscribers w) = Inr (JArr xs)"
    and "JStr email \<in> set xs"
  shows "subscribe email w =
     (Inr (), w\<lparr>loads := loads w + 1,
                 notices := notices w @ [Info ''You are already subscribed!'']\<rparr>)"
proof -
  from assms(1) have "email \<noteq> []"
    by auto
  moreover from assms(2) have "load_subscribers w = (Inr (JArr xs), w\<lparr>loads := loads w + 1\<rparr>)"
    by (simp add: load_subscribers_def)
  ultimately show ?thesis
    using assms(1,3) by (simp add: subscribe_def py_in_def)
qed

lemma subscribe_new:
  assumes "str_contains ''@'' email" and "fst (load_subscribers w) = Inr (JArr xs)"
    and "JStr email \<notin> set xs"
  shows "subscribe email w =
     (Inr (), w\<lparr>loads := loads w + 1,
                 subscribers_json := Contents (Inr (JArr (xs @ [JStr email]))),
                 saves := saves w @ [JArr (xs @ [JStr email])],
                 notices := notices w @
                   [Success ''Successfully subscribed to daily cryptocurrency updates!'']\<rparr>)"
proof -
  from assms(1) have "email \<noteq> []"
    by auto
  moreover from assms(2) have "load_subscribers w = (Inr (JArr xs), w\<lparr>loads := loads w + 1\<rparr>)"
    by (simp add: load_subscribers_def)
  ultimately show ?thesis
    using assms(1,3) by (simp add: subscribe_def py_in_def py_append_def save_subscribers_def)
qed

text \<open>
  A list without repetitions stays one: a file that starts absent, unreadable as JSON
  or as a list of distinct addresses and is written by the form only never holds an
  address twice.
\<close>

lemma subscribe_keeps_distinct:
  assumes "fst (load_subscribers w) = Inr (JArr xs)" and "distinct xs"
  shows "\<exists>ys. fst (load_subscribers (snd (subscribe email w))) = Inr (JArr ys) \<and> distinct ys"
proof (cases "str_contains ''@'' email")
  case False
  then show ?thesis
    using assms by (simp add: subscribe_invalid load_subscribers_def)
next
  case valid: True
  show ?thesis
  proof (cases "JStr email \<in> set xs")
    case True
    then show ?thesis
      using assms valid by (simp add: subscribe_present load_subscribers_def)
  next
    case False
    then show ?thesis
      using assms valid by (simp add: subscribe_new load_subscribers_def)
  qed
qed

text \<open>
  C7. Let \<open>email\<close> contain "@" and let the stored list hold it at most once (as every
  list does that the form has written). After two calls of subscribe with \<open>email\<close> in
  sequence the stored list holds it exactly once; the second call shows
  "You are already subscribed!" and writes nothing.
\<close>

theorem subscribe_twice:
  assumes "str_contains ''@'' email"
    and "fst (load_subscribers w) = Inr (JArr xs)"
    and "count_list xs (JStr email) \<le> 1"
  shows "\<exists>w1 w2 ys.
     subscribe email w = (Inr (), w1) \<and> subscribe email w1 = (Inr (), w2) \<and>
     fst (load_subscribers w2) = Inr (JArr ys) \<and> count_list ys (JStr email) = 1 \<and>
     notices w2 = notices w1 @ [Info ''You are already subscribed!''] \<and>
     saves w2 = saves w1 \<and> subscribers_json w2 = subscribers_json w1"
proof (cases "JStr email \<in> set xs")
  case True
  let ?w1 = "w\<lparr>loads := loads w + 1,
               notices := notices w @ [Info ''You are already subscribed!'']\<rparr>"
  let ?w2 = "?w1\<lparr>loads := loads ?w1 + 1,
               notices := notices ?w1 @ [Info ''You are already subscribed!'']\<rparr>"
  have first: "subscribe email w = (Inr (), ?w1)"
    using assms(1,2) True by (rule subscribe_present)
  have stored: "fst (load_subscribers ?w1) = Inr (JArr xs)"
    using assms(2) by (simp add: load_subscribers_def)
  have second: "subscribe email ?w1 = (Inr (), ?w2)"
    using assms(1) stored True by (rule subscribe_present)
  have "fst (load_subscribers ?w2) = Inr (JArr xs)"
    using assms(2) by (simp add: load_subscribers_def)
  moreover have "count_list xs (JStr email) = 1"
    using True assms(3) count_list_0_iff [of xs "JStr email"] by linarith
  ultimately show ?thesis
    using first second by (intro exI [of _ ?w1] exI [of _ ?w2] exI [of _ xs]) simp
next
  case False
  let ?ys = "xs @ [JStr email]"
  let ?w1 = "w\<lparr>loads := loads w + 1,
               subscribers_json := Contents (Inr (JArr ?ys)),
               saves := saves w @ [JArr ?ys],
               notices := notices w @
                 [Success ''Successfully subscribed to daily cryptocurrency updates!'']\<rparr>"
  let ?w2 = "?w1\<lparr>loads := loads ?w1 + 1,
               notices := notices ?w1 @ [Info ''You are already subscribed!'']\<rparr>"
  have first: "subscribe email w = (Inr (), ?w1)"
    using assms(1,2) False by (rule subscribe_new)
  have stored: "fst (load_subscribers ?w1) = Inr (JArr ?ys)"
    by (simp add: load_subscribers_def)
  have "JStr email \<in> set ?ys"
    by simp
  with assms(1) stored have second: "subscribe email ?w1 = (Inr (), ?w2)"
    by (rule subscribe_present)
  have "fst (load_subscribers ?w2) = Inr (JArr ?ys)"
    by (simp add: load_subscribers_def)
  moreover have "count_list ?ys (JStr email) = 1"
    using False by simp
  ultimately show ?thesis
    using first second by (intro exI [of _ ?w1] exI [of _ ?w2] exI [of _ ?ys]) simp
qed

theorem subscribe_twice_witness:
  "str_contains ''@'' ''a@x.com'' \<and> fst (load_subscribers world0) = Inr (JArr []) \<and>
   count_list [] (JStr ''a@x.com'') \<le> 1 \<and>
   (\<exists>w1 w2 ys.
     subscribe ''a@x.com'' world0 = (Inr (), w1) \<and>
     subscribe ''a@x.com'' w1 = (Inr (), w2) \<and>
     fst (load_subscribers w2) = Inr (JArr ys) \<and> count_list ys (JStr ''a@x.com'') = 1 \<and>
     notices w2 = notices w1 @ [Info ''You are already subscribed!''] \<and>
     saves w2 = saves w1 \<and> subscribers_json w2 = subscribers_json w1)"
proof -
  have valid: "str_contains ''@'' ''a@x.com''"
    by simp
  have stored: "fst (load_subscribers world0) = Inr (JArr [])"
    by (simp add: load_subscribers_def world0_def)
  have once: "count_list [] (JStr ''a@x.com'') \<le> 1"
    by simp
  show ?thesis
    using subscribe_twice [OF valid stored once] valid stored once by blast
qed

text \<open>
  C8. A string without "@" is rejected: the form shows "Please enter a valid email
  address." and changes nothing else, so the file is neither read nor written.
\<close>

theorem subscribe_rejects_invalid:
  assumes "\<not> str_contains ''@'' email"
  shows "subscribe email w =
     (Inr (), w\<lparr>notices := notices w @ [Error ''Please enter a valid email address.'']\<rparr>)"
  using assms by (simp add: subscribe_def)

theorem subscribe_rejects_invalid_witness:
  "\<not> str_contains ''@'' ''alice.example.com'' \<and>
   subscribe ''alice.example.com'' two_subscribers =
     (Inr (), two_subscribers\<lparr>notices := [Error ''Please enter a valid email address.'']\<rparr>)"
proof -
  have invalid: "\<not> str_contains ''@'' ''alice.example.com''"
    by simp
  show ?thesis
    using subscribe_rejects_invalid [OF invalid, of two_subscribers] invalid
    by (simp add: two_subscribers_def world0_def)
qed

lemma load_subscribers_propagates:
  "subscribers_json w = Contents (Inl e) \<Longrightarrow> e \<noteq> JSONDecodeError \<Longrightarrow>
   load_subscribers w = (Inl e, w\<lparr>loads := loads w + 1\<rparr>)"
  by (cases e) (simp_all add: load_subscribers_def)

text \<open>
  C9. The claim reads: \<open>load_subscribers\<close> returns the empty list whenever the file is
  absent or its contents cannot be parsed, and never surfaces the corruption as an
  error. The \<open>except\<close> clause names FileNotFoundError and JSONDecodeError only: a
  file whose bytes are not text cannot be parsed either, and there the function
  raises UnicodeDecodeError.
\<close>

theorem load_subscribers_raises_on_non_text:
  "load_subscribers not_text_file = (Inl UnicodeDecodeError, not_text_file\<lparr>loads := 1\<rparr>)"
  by (simp add: load_subscribers_def not_text_file_def world0_def)

text \<open>
  C9, amended. When subscribers.json is absent, or is text that \<open>json.load\<close> rejects
  with JSONDecodeError, \<open>load_subscribers\<close> returns the empty list and raises
  nothing.
\<close>

theorem load_subscribers_absent_or_not_json:
  assumes "subscribers_json w = Absent \<or> subscribers_json w = Contents (Inl JSONDecodeError)"
  shows "load_subscribers w = (Inr (JArr []), w\<lparr>loads := loads w + 1\<rparr>)"
  using assms by (auto simp: load_subscribers_def)

theorem load_subscribers_absent_or_not_json_witness:
  "subscribers_json world0 = Absent \<and>
   subscribers_json corrupt_file = Contents (Inl JSONDecodeError) \<and>
   load_subscribers world0 = (Inr (JArr []), world0\<lparr>loads := 1\<rparr>) \<and>
   load_subscribers corrupt_file = (Inr (JArr []), corrupt_file\<lparr>loads := 1\<rparr>)"
  using load_subscribers_absent_or_not_json [of world0]
    load_subscribers_absent_or_not_json [of corrupt_file]
  by (simp add: world0_def corrupt_file_def)

section \<open>Claims about the Email Sender and the Daily Dispatcher\<close>

lemma send_email_decoded:
  "json_body (email_api E (length (posts w))) = Some body \<Longrightarrow>
   send_email E recipient subject html_content w =
     (Inr (status_code (email_api E (length (posts w))) = 200, body),
      w\<lparr>posts := posts w @ [(recipient, subject, html_content)]\<rparr>)"
  by (simp add: send_email_def response_json_def bind_err_def)

lemma send_email_undecoded:
  "json_body (email_api E (length (posts w))) = None \<Longrightarrow>
   send_email E recipient subject html_content w =
     (Inl JSONDecodeError, w\<lparr>posts := posts w @ [(recipient, subject, html_content)]\<rparr>)"
  by (simp add: send_email_def response_json_def bind_err_def)

text \<open>
  As long as every response of the email API has a JSON body, whatever its status,
  the loop reaches every subscriber in order and prints one line for each.
\<close>

lemma send_loop_decoded:
  "\<forall>i<length emails. json_body (email_api E (length (posts w) + i)) \<noteq> None \<Longrightarrow>
   \<exists>w'. send_loop E subject html_content emails w = (Inr (), w') \<and>
        posts w' = posts w @ map (\<lambda>email. (email, subject, html_content)) emails \<and>
        length (stdout w') = length (stdout w) + length emails"
proof (induction emails arbitrary: w)
  case Nil
  then show ?case by simp
next
  case (Cons email rest)
  from Cons.prems obtain body where body: "json_body (email_api E (length (posts w))) = Some body"
    by (metis add.right_neutral length_greater_0_conv list.distinct(1) not_Some_eq)
  let ?w = "w\<lparr>posts := posts w @ [(email, subject, html_content)],
              stdout := stdout w @
                [if status_code (email_api E (length (posts w))) = 200 then SentOk email
                 else SendFailed email body]\<rparr>"
  have step: "send_loop E subject html_content (email # rest) w =
      send_loop E subject html_content rest ?w"
    by (simp add: send_email_decoded [OF body])
  have "\<forall>i<length rest. json_body (email_api E (length (posts ?w) + i)) \<noteq> None"
    using Cons.prems by auto
  from Cons.IH [OF this] show ?case
    unfolding step by auto
qed

text \<open>A run that gets as far as the loop over the subscribers.\<close>

lemma send_daily_updates_run:
  assumes "load_subscribers w = (Inr (JArr emails), w0)" and "emails \<noteq> []"
    and "fetch_crypto_data E 3 5 w0 = (Inr crypto_data, w1)" and "truthy crypto_data"
    and "create_email_content now crypto_data = Inr email_content"
  shows "send_daily_updates E now w =
     send_loop E ''Daily Cryptocurrency Update'' email_content emails w1"
  using assms by (simp add: send_daily_updates_def truthy_def py_iter_def)

text \<open>
  C10. \<open>send_email\<close> decodes the body of the response whatever the status is. When
  the body is not JSON it raises instead of returning a failure value, and the
  exception leaves the loop over the subscribers: the POST for the current recipient
  is the last one, nothing is printed and nobody after that recipient is served.
\<close>

theorem send_email_raises_on_undecodable_body:
  assumes "json_body (email_api E (length (posts w))) = None"
  shows "send_email E recipient subject html_content w =
       (Inl JSONDecodeError, w\<lparr>posts := posts w @ [(recipient, subject, html_content)]\<rparr>) \<and>
     send_loop E subject html_content (recipient # rest) w =
       (Inl JSONDecodeError, w\<lparr>posts := posts w @ [(recipient, subject, html_content)]\<rparr>)"
  using assms by (simp add: send_email_undecoded)

theorem send_email_raises_on_undecodable_body_witness:
  "json_body (email_api env_html_200 (length (posts world0))) = None \<and>
   status_code (email_api env_html_200 (length (posts world0))) = 200 \<and>
   send_email env_html_200 (JStr ''a@x.com'') ''Daily Cryptocurrency Update'' sample_body world0 =
     (Inl JSONDecodeError,
      world0\<lparr>posts := [(JStr ''a@x.com'', ''Daily Cryptocurrency Update'', sample_body)]\<rparr>) \<and>
   send_loop env_html_200 ''Daily Cryptocurrency Update'' sample_body
       [JStr ''a@x.com'', JStr ''b@y.com''] world0 =
     (Inl JSONDecodeError,
      world0\<lparr>posts := [(JStr ''a@x.com'', ''Daily Cryptocurrency Update'', sample_body)]\<rparr>)"
proof -
  have undecodable: "json_body (email_api env_html_200 (length (posts world0))) = None"
    by (simp add: env_html_200_def)
  have posts0: "posts world0 = []"
    by (simp add: world0_def)
  show ?thesis
    using send_email_raises_on_undecodable_body [OF undecodable,
        of "JStr ''a@x.com''" "''Daily Cryptocurrency Update''" sample_body "[JStr ''b@y.com'']"]
      undecodable
    by (simp add: posts0 env_html_200_def)
qed

text \<open>
  C4. The claim: whenever the send to one subscriber fails, \<open>send_daily_updates\<close>
  records the failure for that recipient and goes on to every remaining subscriber,
  without raising. The code at the failing input: two subscribers, prices fetched,
  and a gateway error page (status 502, body not JSON) for the first POST. The run
  ends in JSONDecodeError after one POST; no line is printed for the first
  subscriber and the second is never attempted.
\<close>

theorem send_daily_updates_aborts_on_error_page:
  "send_daily_updates env_bad_gateway morning two_subscribers =
     (Inl JSONDecodeError,
      two_subscribers\<lparr>loads := 1, gets := 1,
        posts := [(JStr ''a@x.com'', ''Daily Cryptocurrency Update'', sample_body)]\<rparr>) \<and>
   stdout (snd (send_daily_updates env_bad_gateway morning two_subscribers)) = []"
proof -
  have fetched: "fetch_crypto_data env_bad_gateway 3 5 (two_subscribers\<lparr>loads := 1\<rparr>) =
      (Inr sample_snapshot, two_subscribers\<lparr>loads := 1, gets := 1\<rparr>)"
    unfolding fetch_crypto_data_def
    by (subst fetch_loop_200)
       (simp_all add: env_bad_gateway_def ok_response_def response_json_def
          two_subscribers_def world0_def)
  have rendered: "create_email_content morning sample_snapshot = Inr sample_body"
    unfolding morning_def by (rule create_email_content_sample)
  have nonempty: "truthy sample_snapshot"
    by (simp add: truthy_def sample_snapshot_def)
  have loaded: "load_subscribers two_subscribers =
      (Inr (JArr [JStr ''a@x.com'', JStr ''b@y.com'']), two_subscribers\<lparr>loads := 1\<rparr>)"
    by (simp add: load_subscribers_def two_subscribers_def world0_def)
  have first_post: "json_body (email_api env_bad_gateway
      (length (posts (two_subscribers\<lparr>loads := 1, gets := 1\<rparr>)))) = None"
    by (simp add: env_bad_gateway_def bad_gateway_def two_subscribers_def world0_def)
  have aborted: "send_loop env_bad_gateway ''Daily Cryptocurrency Update'' sample_body
      [JStr ''a@x.com'', JStr ''b@y.com''] (two_subscribers\<lparr>loads := 1, gets := 1\<rparr>) =
      (Inl JSONDecodeError,
       two_subscribers\<lparr>loads := 1, gets := 1,
         posts := [(JStr ''a@x.com'', ''Daily Cryptocurrency Update'', sample_body)]\<rparr>)"
    unfolding send_loop.simps send_email_undecoded [OF first_post]
    by (simp add: two_subscribers_def world0_def)
  have "send_daily_updates env_bad_gateway morning two_subscribers =
      send_loop env_bad_gateway ''Daily Cryptocurrency Update'' sample_body
        [JStr ''a@x.com'', JStr ''b@y.com''] (two_subscribers\<lparr>loads := 1, gets := 1\<rparr>)"
    using loaded _ fetched nonempty rendered by (rule send_daily_updates_run) simp
  then have "send_daily_updates env_bad_gateway morning two_subscribers =
      (Inl JSONDecodeError,
       two_subscribers\<lparr>loads := 1, gets := 1,
         posts := [(JStr ''a@x.com'', ''Daily Cryptocurrency Update'', sample_body)]\<rparr>)"
    unfolding aborted .
  then show ?thesis
    by (simp add: two_subscribers_def world0_def)
qed

end
